theory Spec2Isabelle
  imports Main "HOL-Library.Char_ord" "HOL-Library.List_Lexorder"
begin

section \<open>Python values\<close>

text \<open>
  The values that \<^verbatim>\<open>response.json()\<close> and the tool arguments hold. A Python
  \<^verbatim>\<open>str\<close> is its UTF-8 byte string (bytewise order is code point order), a
  \<^verbatim>\<open>dict\<close> is its list of items in insertion order. A number without fraction or
  exponent is a Python int; any other number is a float (a double): \<open>Finite neg m e\<close> is
  the double of value \<open>m * 2 ^ e\<close>, negated when \<open>neg\<close> is set (so \<^verbatim>\<open>-0.0\<close> is
  \<open>Finite True 0 0\<close>); \<^verbatim>\<open>1e999\<close> and \<^verbatim>\<open>Infinity\<close> parse to \<open>PosInf\<close>,
  \<^verbatim>\<open>-Infinity\<close> to \<open>NegInf\<close>, \<^verbatim>\<open>NaN\<close> to \<open>NaN\<close>. Comparisons of doubles are
  exact and are modelled; an addition or subtraction whose operands are both finite
  rounds, and the model gives no result for it (\<open>NotModelled\<close> below).
\<close>

datatype pyfloat = Finite bool nat int | PosInf | NegInf | NaN

datatype json =
    JNull
  | JBool bool
  | JInt int
  | JFloat pyfloat
  | JStr string
  | JArr "json list"
  | JObj "(string \<times> json) list"

text \<open>\<^verbatim>\<open>type(v).__name__\<close>, as the interpreter's messages print it.\<close>

fun py_type_name :: "json \<Rightarrow> string" where
  "py_type_name JNull = ''NoneType''"
| "py_type_name (JBool _) = ''bool''"
| "py_type_name (JInt _) = ''int''"
| "py_type_name (JFloat _) = ''float''"
| "py_type_name (JStr _) = ''str''"
| "py_type_name (JArr _) = ''list''"
| "py_type_name (JObj _) = ''dict''"

text \<open>Truth value testing (\<^verbatim>\<open>if v:\<close>, \<^verbatim>\<open>not v\<close>, \<^verbatim>\<open>a or b\<close>).\<close>

fun py_truthy :: "json \<Rightarrow> bool" where
  "py_truthy JNull = False"
| "py_truthy (JBool b) = b"
| "py_truthy (JInt n) = (n \<noteq> 0)"
| "py_truthy (JFloat (Finite _ m _)) = (m \<noteq> 0)"
| "py_truthy (JFloat _) = True"
| "py_truthy (JStr s) = (s \<noteq> [])"
| "py_truthy (JArr xs) = (xs \<noteq> [])"
| "py_truthy (JObj kvs) = (kvs \<noteq> [])"

text \<open>The exceptions that the tool handler lets escape; the message is \<^verbatim>\<open>str(e)\<close>.\<close>

datatype exn = TypeError string | AttributeError string | OverflowError string

fun str_exn :: "exn \<Rightarrow> string" where
  "str_exn (TypeError m) = m"
| "str_exn (AttributeError m) = m"
| "str_exn (OverflowError m) = m"

text \<open>\<^verbatim>\<open>v.get(key, default)\<close>: only a dict has the method.\<close>

fun py_get :: "json \<Rightarrow> string \<Rightarrow> json \<Rightarrow> exn + json" where
  "py_get (JObj kvs) k d = Inr (case map_of kvs k of Some v \<Rightarrow> v | None \<Rightarrow> d)"
| "py_get v k d = Inl (AttributeError ([CHR 0x27] @ py_type_name v @ ''' object has no attribute '' @ [CHR 0x27] @ ''get'' @ [CHR 0x27]))"

text \<open>\<^verbatim>\<open>len(v)\<close> on a parsed value.\<close>

fun py_len :: "json \<Rightarrow> exn + nat" where
  "py_len (JStr s) = Inr (length s)"
| "py_len (JArr xs) = Inr (length xs)"
| "py_len (JObj kvs) = Inr (length kvs)"
| "py_len v = Inl (TypeError (''object of type '' @ [CHR 0x27] @ py_type_name v @ [CHR 0x27] @ '' has no len()''))"

text \<open>What \<^verbatim>\<open>for c in v\<close> yields: the items of a list, the characters of a str,
  the keys of a dict.\<close>

fun py_iter :: "json \<Rightarrow> exn + json list" where
  "py_iter (JArr xs) = Inr xs"
| "py_iter (JStr s) = Inr (map (\<lambda>c. JStr [c]) s)"
| "py_iter (JObj kvs) = Inr (map (\<lambda>kv. JStr (fst kv)) kvs)"
| "py_iter v = Inl (TypeError ([CHR 0x27] @ py_type_name v @ ''' object is not iterable''))"

text \<open>The value of an int or a bool in arithmetic (\<^verbatim>\<open>bool\<close> is a subclass of
  \<^verbatim>\<open>int\<close>).\<close>

fun py_num :: "json \<Rightarrow> int option" where
  "py_num (JInt n) = Some n"
| "py_num (JBool b) = Some (if b then 1 else 0)"
| "py_num v = None"

text \<open>
  How a computation ends: it returns a value, it raises, or it is outside the model: an
  addition or subtraction that rounds (\<open>float_add\<close> below), or collection names that
  \<open>py_sorted_key\<close> below does not cover.
\<close>

datatype 'a outcome = Returns 'a | Raises exn | NotModelled

definition out_bind :: "'a outcome \<Rightarrow> ('a \<Rightarrow> 'b outcome) \<Rightarrow> 'b outcome" where
  "out_bind m f = (case m of Returns x \<Rightarrow> f x | Raises e \<Rightarrow> Raises e | NotModelled \<Rightarrow> NotModelled)"

text \<open>The numbers: an int (or bool) by its value, or a float. No other parsed value
  supports \<^verbatim>\<open>+\<close> or \<^verbatim>\<open>-\<close> with a number.\<close>

datatype number = IntVal int | FloatVal pyfloat

fun py_number :: "json \<Rightarrow> number option" where
  "py_number (JInt n) = Some (IntVal n)"
| "py_number (JBool b) = Some (IntVal (if b then 1 else 0))"
| "py_number (JFloat f) = Some (FloatVal f)"
| "py_number v = None"

text \<open>The value of a finite double as a fraction of ints with a positive denominator,
  and the exact order and equality of such fractions.\<close>

definition finite_ratio :: "bool \<Rightarrow> nat \<Rightarrow> int \<Rightarrow> int \<times> int" where
  "finite_ratio neg m e =
     ((if neg then - int m else int m) * (if 0 \<le> e then 2 ^ nat e else 1),
      (if 0 \<le> e then 1 else 2 ^ nat (- e)))"

definition ratio_less :: "int \<times> int \<Rightarrow> int \<times> int \<Rightarrow> bool" where
  "ratio_less p q = (fst p * snd q < fst q * snd p)"

definition ratio_eq :: "int \<times> int \<Rightarrow> int \<times> int \<Rightarrow> bool" where
  "ratio_eq p q = (fst p * snd q = fst q * snd p)"

text \<open>\<^verbatim>\<open>a == b\<close> on numbers: exact, also between an int and a float; \<^verbatim>\<open>NaN\<close> is
  equal to nothing, itself included.\<close>

fun num_eq :: "number \<Rightarrow> number \<Rightarrow> bool" where
  "num_eq (IntVal a) (IntVal b) = (a = b)"
| "num_eq (IntVal a) (FloatVal (Finite neg m e)) = ratio_eq (a, 1) (finite_ratio neg m e)"
| "num_eq (FloatVal (Finite neg m e)) (IntVal b) = ratio_eq (finite_ratio neg m e) (b, 1)"
| "num_eq (FloatVal (Finite neg m e)) (FloatVal (Finite neg' m' e')) =
     ratio_eq (finite_ratio neg m e) (finite_ratio neg' m' e')"
| "num_eq (FloatVal PosInf) (FloatVal PosInf) = True"
| "num_eq (FloatVal NegInf) (FloatVal NegInf) = True"
| "num_eq x y = False"

text \<open>\<^verbatim>\<open>n < f\<close> for an int \<open>n\<close> and a float \<open>f\<close>.\<close>

fun int_less_float :: "int \<Rightarrow> pyfloat \<Rightarrow> bool" where
  "int_less_float n (Finite neg m e) = ratio_less (n, 1) (finite_ratio neg m e)"
| "int_less_float n PosInf = True"
| "int_less_float n NegInf = False"
| "int_less_float n NaN = False"

text \<open>
  Arithmetic with a float operand converts an int operand to a double first, which raises
  OverflowError for an int that rounds beyond the largest double (from
  \<open>2 ^ 1024 - 2 ^ 970\<close> on). What is left of an operand then: it is finite, or one of the
  three special values.
\<close>

definition int_overflows :: "int \<Rightarrow> bool" where
  "int_overflows n = (2 ^ 1024 - 2 ^ 970 \<le> \<bar>n\<bar>)"

datatype float_class = IsFinite | IsPosInf | IsNegInf | IsNaN

fun class_of_float :: "pyfloat \<Rightarrow> float_class" where
  "class_of_float (Finite _ _ _) = IsFinite"
| "class_of_float PosInf = IsPosInf"
| "class_of_float NegInf = IsNegInf"
| "class_of_float NaN = IsNaN"

fun class_of_number :: "number \<Rightarrow> exn + float_class" where
  "class_of_number (IntVal n) =
     (if int_overflows n then Inl (OverflowError ''int too large to convert to float'')
      else Inr IsFinite)"
| "class_of_number (FloatVal f) = Inr (class_of_float f)"

text \<open>The sum of two doubles by their classes: \<open>None\<close> where both are finite and the sum
  is rounded.\<close>

fun float_add :: "float_class \<Rightarrow> float_class \<Rightarrow> pyfloat option" where
  "float_add IsNaN _ = Some NaN"
| "float_add _ IsNaN = Some NaN"
| "float_add IsPosInf IsNegInf = Some NaN"
| "float_add IsNegInf IsPosInf = Some NaN"
| "float_add IsPosInf _ = Some PosInf"
| "float_add _ IsPosInf = Some PosInf"
| "float_add IsNegInf _ = Some NegInf"
| "float_add _ IsNegInf = Some NegInf"
| "float_add IsFinite IsFinite = None"

fun float_neg :: "float_class \<Rightarrow> float_class" where
  "float_neg IsPosInf = IsNegInf"
| "float_neg IsNegInf = IsPosInf"
| "float_neg c = c"

text \<open>\<^verbatim>\<open>x + y\<close> and \<^verbatim>\<open>x - y\<close> on numbers: ints stay ints; with a float operand
  the result is a float.\<close>

definition float_result :: "pyfloat option \<Rightarrow> json outcome" where
  "float_result r = (case r of Some f \<Rightarrow> Returns (JFloat f) | None \<Rightarrow> NotModelled)"

fun num_add :: "number \<Rightarrow> number \<Rightarrow> json outcome" where
  "num_add (IntVal a) (IntVal b) = Returns (JInt (a + b))"
| "num_add x y =
     (case class_of_number x of
        Inl e \<Rightarrow> Raises e
      | Inr cx \<Rightarrow>
          (case class_of_number y of
             Inl e \<Rightarrow> Raises e
           | Inr cy \<Rightarrow> float_result (float_add cx cy)))"

fun num_sub :: "number \<Rightarrow> number \<Rightarrow> json outcome" where
  "num_sub (IntVal a) (IntVal b) = Returns (JInt (a - b))"
| "num_sub x y =
     (case class_of_number x of
        Inl e \<Rightarrow> Raises e
      | Inr cx \<Rightarrow>
          (case class_of_number y of
             Inl e \<Rightarrow> Raises e
           | Inr cy \<Rightarrow> float_result (float_add cx (float_neg cy))))"

text \<open>Decimal rendering of an int, as an f-string prints it.\<close>

fun str_nat :: "nat \<Rightarrow> string" where
  "str_nat n = (if n < 10 then [char_of (48 + n)] else str_nat (n div 10) @ [char_of (48 + n mod 10)])"

definition str_int :: "int \<Rightarrow> string" where
  "str_int i = (if i < 0 then CHR ''-'' # str_nat (nat (- i)) else str_nat (nat i))"

text \<open>Sequencing of computations that may raise: the first exception ends the run.\<close>

definition exn_bind :: "exn + 'a \<Rightarrow> ('a \<Rightarrow> exn + 'b) \<Rightarrow> exn + 'b" where
  "exn_bind m f = (case m of Inl e \<Rightarrow> Inl e | Inr x \<Rightarrow> f x)"

fun exn_map :: "('a \<Rightarrow> exn + 'b) \<Rightarrow> 'a list \<Rightarrow> exn + 'b list" where
  "exn_map f [] = Inr []"
| "exn_map f (x # xs) = exn_bind (f x) (\<lambda>y. exn_bind (exn_map f xs) (\<lambda>ys. Inr (y # ys)))"

section \<open>Configuration and the world outside the process\<close>

text \<open>The module-level constants, read once from the environment and the config file.\<close>

record config =
  SOURCE_REST_URL :: string
  TARGET_REST_URL :: string
  TARGET_API_KEY :: string
  SYNC_SCRIPT :: string
  SYNC_SCRIPT_REVERSE :: string
  LOG_DIR :: string

text \<open>
  An HTTP response as the code reads it: the status code, and what
  \<^verbatim>\<open>response.json()\<close> gives, \<open>Inl m\<close> when it raises with message \<open>m\<close>.
\<close>

datatype response = Response (status_code: int) (json_body: "string + json")

text \<open>What \<^verbatim>\<open>client.get\<close> does: it raises (DNS, refusal, timeout; the message is
  \<^verbatim>\<open>str(e)\<close>) or it returns a response.\<close>

datatype http_outcome = ClientError string | Got response

text \<open>What \<^verbatim>\<open>subprocess.run\<close> does with the timeout it is given: it returns the
  completed process (exit code, stdout, stderr), raises \<^verbatim>\<open>TimeoutExpired\<close>, or raises
  another exception with message \<open>m\<close>.\<close>

datatype proc_outcome = Exited int string string | TimeoutExpired | LaunchError string

text \<open>
  Everything the server reads from outside: the two kinds of store requests (by base URL,
  collection name and the \<^verbatim>\<open>api-key\<close> header), the sync scripts (by command line and
  timeout in seconds), the log directory (\<^verbatim>\<open>glob.glob\<close> of a pattern; reading a file's
  content and size, \<open>Inl m\<close> when either raises), and the clock
  (\<^verbatim>\<open>datetime.now().isoformat()\<close>). The stores answer a request the same way for the
  length of one tool call.
\<close>

record world =
  get_collections :: "string \<Rightarrow> string option \<Rightarrow> http_outcome"
  get_collection :: "string \<Rightarrow> json \<Rightarrow> string option \<Rightarrow> http_outcome"
  subprocess_run :: "json list \<Rightarrow> nat \<Rightarrow> proc_outcome"
  glob :: "string \<Rightarrow> string list"
  read_log :: "string \<Rightarrow> string + (string \<times> nat)"
  now :: string

section \<open>Helper functions\<close>

text \<open>\<^verbatim>\<open>headers = {}; if api_key: headers["api-key"] = api_key\<close>\<close>

definition headers :: "string option \<Rightarrow> string option" where
  "headers api_key = (case api_key of None \<Rightarrow> None | Some k \<Rightarrow> if k \<noteq> [] then Some k else None)"

text \<open>The three shapes of the dict that \<^verbatim>\<open>check_qdrant_connectivity\<close> returns:
  \<open>Connected url collection_count collections\<close>, \<open>Error url error\<close>,
  \<open>Unreachable url error\<close>.\<close>

datatype conn_report =
    Connected string nat "json list"
  | Error string string
  | Unreachable string string

fun status :: "conn_report \<Rightarrow> string" where
  "status (Connected _ _ _) = ''connected''"
| "status (Error _ _) = ''error''"
| "status (Unreachable _ _) = ''unreachable''"

text \<open>Lines 82--88: the count and the names read from the parsed body.\<close>

definition connected_fields :: "json \<Rightarrow> exn + (nat \<times> json list)" where
  "connected_fields data =
     exn_bind (py_get data ''result'' (JObj [])) (\<lambda>result.
     exn_bind (py_get result ''collections'' (JArr [])) (\<lambda>collections.
     exn_bind (py_len collections) (\<lambda>n.
     exn_bind (py_iter collections) (\<lambda>cs.
     exn_bind (exn_map (\<lambda>c. py_get c ''name'' JNull) cs) (\<lambda>names.
     Inr (n, names))))))"

definition check_qdrant_connectivity :: "world \<Rightarrow> string \<Rightarrow> string option \<Rightarrow> conn_report" where
  "check_qdrant_connectivity w url api_key =
     (case get_collections w url (headers api_key) of
        ClientError m \<Rightarrow> Unreachable url m
      | Got response \<Rightarrow>
          if status_code response = 200 then
            (case json_body response of
               Inl m \<Rightarrow> Unreachable url m
             | Inr data \<Rightarrow>
                 (case connected_fields data of
                    Inl e \<Rightarrow> Unreachable url (str_exn e)
                  | Inr (n, names) \<Rightarrow> Connected url n names))
          else Error url (''HTTP '' @ str_int (status_code response)))"

text \<open>
  The dicts that stand for one collection on one side: \<open>Info name status points_count
  vectors_count indexed_vectors_count\<close> and \<open>InfoError name error\<close> come from
  \<^verbatim>\<open>get_collection_info\<close>; \<open>Missing\<close> is the literal
  \<^verbatim>\<open>{"points_count": 0, "missing": True}\<close> of the comparison.
\<close>

datatype collection_info =
    Info json json json json json
  | InfoError json string
  | Missing

text \<open>\<^verbatim>\<open>c["name"]\<close>, on the dicts that have the key.\<close>

fun info_name :: "collection_info \<Rightarrow> json" where
  "info_name (Info name _ _ _ _) = name"
| "info_name (InfoError name _) = name"
| "info_name Missing = JNull"

text \<open>\<^verbatim>\<open>info.get("points_count", 0)\<close>\<close>

fun info_points_count :: "collection_info \<Rightarrow> json" where
  "info_points_count (Info _ _ points_count _ _) = points_count"
| "info_points_count (InfoError _ _) = JInt 0"
| "info_points_count Missing = JInt 0"

text \<open>\<^verbatim>\<open>info.get("missing", False)\<close>; \<^verbatim>\<open>info.get("missing")\<close> has the same truth value.\<close>

fun info_missing :: "collection_info \<Rightarrow> bool" where
  "info_missing Missing = True"
| "info_missing _ = False"

text \<open>Lines 114--122: the four fields read from the parsed body.\<close>

definition info_fields :: "json \<Rightarrow> exn + (json \<times> json \<times> json \<times> json)" where
  "info_fields data =
     exn_bind (py_get data ''result'' (JObj [])) (\<lambda>result.
     exn_bind (py_get result ''status'' (JStr ''unknown'')) (\<lambda>st.
     exn_bind (py_get result ''points_count'' (JInt 0)) (\<lambda>pc.
     exn_bind (py_get result ''vectors_count'' (JInt 0)) (\<lambda>vc.
     exn_bind (py_get result ''indexed_vectors_count'' (JInt 0)) (\<lambda>ivc.
     Inr (st, pc, vc, ivc))))))"

definition get_collection_info :: "world \<Rightarrow> string \<Rightarrow> json \<Rightarrow> string option \<Rightarrow> collection_info" where
  "get_collection_info w url name api_key =
     (case get_collection w url name (headers api_key) of
        ClientError m \<Rightarrow> InfoError name m
      | Got response \<Rightarrow>
          if status_code response = 200 then
            (case json_body response of
               Inl m \<Rightarrow> InfoError name m
             | Inr data \<Rightarrow>
                 (case info_fields data of
                    Inl e \<Rightarrow> InfoError name (str_exn e)
                  | Inr (st, pc, vc, ivc) \<Rightarrow> Info name st pc vc ivc))
          else InfoError name (''HTTP '' @ str_int (status_code response)))"

text \<open>
  \<^verbatim>\<open>sorted(xs, key=f)\<close>, a stable sort, on the lists of collection names that the model
  covers: every key a str (code point order), every key an int (order of the ints), or at
  most one item, whose key is \<^verbatim>\<open>None\<close>, a bool, an int or a str (nothing is
  compared). On these keys the items of a dict and of a set are the same under Python's
  equality and under equality of the parsed values, which the dicts of the comparison
  rely on. On other lists Python's comparison decides between a result and a TypeError by
  the pairs the sort happens to compare, a float key can be \<^verbatim>\<open>NaN\<close> (equal to
  nothing) and a list or dict key cannot be hashed: the model gives no result there
  (\<open>None\<close>).
\<close>

fun is_str :: "json \<Rightarrow> bool" where
  "is_str (JStr _) = True"
| "is_str _ = False"

fun str_of :: "json \<Rightarrow> string" where
  "str_of (JStr s) = s"
| "str_of _ = []"

fun is_int :: "json \<Rightarrow> bool" where
  "is_int (JInt _) = True"
| "is_int _ = False"

fun int_of :: "json \<Rightarrow> int" where
  "int_of (JInt n) = n"
| "int_of _ = 0"

fun is_scalar_key :: "json \<Rightarrow> bool" where
  "is_scalar_key JNull = True"
| "is_scalar_key (JBool _) = True"
| "is_scalar_key (JInt _) = True"
| "is_scalar_key (JStr _) = True"
| "is_scalar_key _ = False"

definition py_sorted_key :: "('a \<Rightarrow> json) \<Rightarrow> 'a list \<Rightarrow> 'a list option" where
  "py_sorted_key f xs =
     (if list_all (\<lambda>x. is_str (f x)) xs then Some (sort_key (\<lambda>x. str_of (f x)) xs)
      else if list_all (\<lambda>x. is_int (f x)) xs then Some (sort_key (\<lambda>x. int_of (f x)) xs)
      else if length xs \<le> 1 \<and> list_all (\<lambda>x. is_scalar_key (f x)) xs then Some xs
      else None)"

definition get_all_collections_with_counts :: "world \<Rightarrow> string \<Rightarrow> string option \<Rightarrow> collection_info list option" where
  "get_all_collections_with_counts w url api_key =
     (case check_qdrant_connectivity w url api_key of
        Connected _ _ names \<Rightarrow>
          py_sorted_key info_name (map (\<lambda>name. get_collection_info w url name api_key) names)
      | _ \<Rightarrow> Some [])"

text \<open>The dict that \<^verbatim>\<open>run_sync_script\<close> returns; a key that the dict does not have is
  \<open>None\<close>.\<close>

record sync_result =
  success :: bool
  returncode :: "int option"
  stdout :: "string option"
  stderr :: "string option"
  error :: "string option"

text \<open>The result, and the command line handed to \<^verbatim>\<open>subprocess.run\<close>.\<close>

definition run_sync_script :: "world \<Rightarrow> config \<Rightarrow> json list option \<Rightarrow> string option \<Rightarrow> sync_result \<times> json list" where
  "run_sync_script w cfg args script_path =
     (let script = (case script_path of
                      Some p \<Rightarrow> if p \<noteq> [] then p else SYNC_SCRIPT cfg
                    | None \<Rightarrow> SYNC_SCRIPT cfg);
          cmd = [JStr script] @ (case args of Some a \<Rightarrow> if a \<noteq> [] then a else [] | None \<Rightarrow> [])
      in ((case subprocess_run w cmd 1800 of
             Exited rc out err \<Rightarrow>
               \<lparr>success = (rc = 0), returncode = Some rc, stdout = Some out, stderr = Some err,
                error = None\<rparr>
           | TimeoutExpired \<Rightarrow>
               \<lparr>success = False, returncode = None, stdout = None, stderr = None,
                error = Some ''Sync operation timed out after 30 minutes''\<rparr>
           | LaunchError m \<Rightarrow>
               \<lparr>success = False, returncode = None, stdout = None, stderr = None,
                error = Some m\<rparr>), cmd))"

text \<open>\<^verbatim>\<open>os.path.join(a, b)\<close> for a relative \<open>b\<close>, and \<^verbatim>\<open>os.path.basename\<close>.\<close>

definition path_join :: "string \<Rightarrow> string \<Rightarrow> string" where
  "path_join a b = (if a = [] \<or> last a = CHR ''/'' then a @ b else a @ ''/'' @ b)"

definition basename :: "string \<Rightarrow> string" where
  "basename p = rev (takeWhile (\<lambda>c. c \<noteq> CHR ''/'') (rev p))"

text \<open>\<^verbatim>\<open>s.replace(old, "")\<close> for a non-empty \<open>old\<close>: the occurrences are removed from
  left to right; \<open>k\<close> counts the characters of an occurrence still to skip.\<close>

fun remove_from :: "string \<Rightarrow> nat \<Rightarrow> string \<Rightarrow> string" where
  "remove_from old k [] = []"
| "remove_from old k (c # cs) =
     (if 0 < k then remove_from old (k - 1) cs
      else if take (length old) (c # cs) = old then remove_from old (length old - 1) cs
      else c # remove_from old 0 cs)"

definition py_remove :: "string \<Rightarrow> string \<Rightarrow> string" where
  "py_remove s old = remove_from old 0 s"

text \<open>\<^verbatim>\<open>xs[:count]\<close>: a negative count drops that many items from the end.\<close>

definition py_slice_to :: "int \<Rightarrow> 'a list \<Rightarrow> 'a list" where
  "py_slice_to count xs =
     (if 0 \<le> count then take (nat count) xs else take (length xs - nat (- count)) xs)"

text \<open>One item of the list that \<^verbatim>\<open>get_recent_logs\<close> returns: \<open>LogEntry file timestamp
  size_bytes content\<close> or \<open>LogError file error\<close>.\<close>

datatype log_entry = LogEntry string string nat string | LogError string string

definition get_recent_logs :: "world \<Rightarrow> config \<Rightarrow> int \<Rightarrow> log_entry list" where
  "get_recent_logs w cfg count =
     (let pattern = path_join (LOG_DIR cfg) ''qdrant-sync-*.log'';
          log_files = py_slice_to count (rev (sort (glob w pattern)))
      in map (\<lambda>log_file.
                case read_log w log_file of
                  Inr (content, size_bytes) \<Rightarrow>
                    LogEntry log_file
                      (py_remove (py_remove (basename log_file) ''qdrant-sync-'') ''.log'')
                      size_bytes content
                | Inl m \<Rightarrow> LogError log_file m)
             log_files)"

section \<open>The tool handler\<close>

text \<open>One row of the comparison, and its summary.\<close>

record entry =
  name :: json
  local_points :: json
  vps_points :: json
  difference :: json
  in_sync :: bool
  local_only :: bool
  vps_only :: bool

record summary =
  total_collections :: nat
  local_collections :: nat
  vps_collections :: nat
  out_of_sync :: nat
  total_local_points :: json
  total_vps_points :: json
  total_difference :: json

text \<open>
  The value that a tool call serialises with \<^verbatim>\<open>json.dumps\<close>, one constructor for each
  shape: \<open>StatusReport timestamp local vps sync_ready\<close>, the result of a sync script,
  \<open>ErrorReport error hint\<close>, the logs, \<open>CompareOne collection local vps in_sync
  difference\<close>, and \<open>CompareAll timestamp summary collections\<close>.
\<close>

datatype payload =
    StatusReport string conn_report conn_report bool
  | SyncReport sync_result
  | ErrorReport string "string option"
  | LogsReport "log_entry list"
  | CompareOne json collection_info collection_info bool json
  | CompareAll string summary "entry list"

text \<open>\<^verbatim>\<open>arguments.get(key, default)\<close>\<close>

definition arg_get :: "(string \<rightharpoonup> json) \<Rightarrow> string \<Rightarrow> json \<Rightarrow> json" where
  "arg_get arguments k d = (case arguments k of Some v \<Rightarrow> v | None \<Rightarrow> d)"

text \<open>\<^verbatim>\<open>total += points\<close> with a number on the left, and \<^verbatim>\<open>a - b\<close>.\<close>

definition py_iadd :: "json \<Rightarrow> json \<Rightarrow> json outcome" where
  "py_iadd acc v =
     (case (py_number acc, py_number v) of
        (Some x, Some y) \<Rightarrow> num_add x y
      | _ \<Rightarrow> Raises (TypeError (''unsupported operand type(s) for +=: '' @ [CHR 0x27]
                   @ py_type_name acc @ [CHR 0x27] @ '' and '' @ [CHR 0x27] @ py_type_name v
                   @ [CHR 0x27])))"

definition py_sub :: "json \<Rightarrow> json \<Rightarrow> json outcome" where
  "py_sub a b =
     (case (py_number a, py_number b) of
        (Some x, Some y) \<Rightarrow> num_sub x y
      | _ \<Rightarrow> Raises (TypeError (''unsupported operand type(s) for -: '' @ [CHR 0x27] @ py_type_name a
                   @ [CHR 0x27] @ '' and '' @ [CHR 0x27] @ py_type_name b @ [CHR 0x27])))"

text \<open>
  \<^verbatim>\<open>a == b\<close>, which never raises: numbers compare by value (\<^verbatim>\<open>True == 1\<close>,
  \<^verbatim>\<open>1 == 1.0\<close>) and are equal to nothing else. The handler uses the result only where
  both operands are numbers (the arithmetic beside the comparison raises on the others);
  there the other values are compared as they are written.
\<close>

definition py_eq :: "json \<Rightarrow> json \<Rightarrow> bool" where
  "py_eq a b =
     (case (py_number a, py_number b) of
        (Some x, Some y) \<Rightarrow> num_eq x y
      | (None, None) \<Rightarrow> a = b
      | _ \<Rightarrow> False)"

text \<open>\<^verbatim>\<open>min(v, 10)\<close>: 10 when \<^verbatim>\<open>10 < v\<close>, else \<open>v\<close> itself.\<close>

definition py_min_10 :: "json \<Rightarrow> exn + json" where
  "py_min_10 v =
     (case py_number v of
        Some (IntVal n) \<Rightarrow> Inr (if 10 < n then JInt 10 else v)
      | Some (FloatVal f) \<Rightarrow> Inr (if int_less_float 10 f then JInt 10 else v)
      | None \<Rightarrow> Inl (TypeError ([CHR 0x27] @ ''<'' @ [CHR 0x27] @ '' not supported between instances of ''
                   @ [CHR 0x27] @ ''int'' @ [CHR 0x27] @ '' and '' @ [CHR 0x27] @ py_type_name v @ [CHR 0x27])))"

text \<open>The int that the slice \<^verbatim>\<open>[:count]\<close> of line 178 reads in the count; a float is
  no index and makes the slice raise.\<close>

definition py_index :: "json \<Rightarrow> exn + int" where
  "py_index v =
     (case py_num v of
        Some n \<Rightarrow> Inr n
      | None \<Rightarrow> Inl (TypeError ''slice indices must be integers or None or have an __index__ method''))"

text \<open>Lines 405--409: the count that \<^verbatim>\<open>qdrant_sync_logs\<close> passes to
  \<^verbatim>\<open>get_recent_logs\<close>, as the int that the slice there reads.\<close>

definition logs_count :: "(string \<rightharpoonup> json) \<Rightarrow> exn + int" where
  "logs_count arguments =
     exn_bind (py_min_10 (arg_get arguments ''count'' (JInt 3))) (\<lambda>count.
       let latest_only = arg_get arguments ''latest_only'' (JBool False)
       in if py_truthy latest_only then Inr 1 else py_index count)"

text \<open>A dict built by assignment in order: a key that is there keeps its place and takes the
  new value.\<close>

fun dict_set :: "'k \<Rightarrow> 'v \<Rightarrow> ('k \<times> 'v) list \<Rightarrow> ('k \<times> 'v) list" where
  "dict_set k v [] = [(k, v)]"
| "dict_set k v ((k', v') # kvs) = (if k' = k then (k, v) # kvs else (k', v') # dict_set k v kvs)"

text \<open>\<^verbatim>\<open>{c["name"]: c for c in collections}\<close>\<close>

definition dict_by_name :: "collection_info list \<Rightarrow> (json \<times> collection_info) list" where
  "dict_by_name cs = foldl (\<lambda>d c. dict_set (info_name c) c d) [] cs"

text \<open>\<^verbatim>\<open>d.get(name, {"points_count": 0, "missing": True})\<close>\<close>

definition dict_get_info :: "(json \<times> collection_info) list \<Rightarrow> json \<Rightarrow> collection_info" where
  "dict_get_info d k = (case map_of d k of Some c \<Rightarrow> c | None \<Rightarrow> Missing)"

text \<open>
  Lines 443--470, the loop over the sorted names. The state is the comparison so far,
  \<open>total_local_points\<close>, \<open>total_vps_points\<close> and \<open>out_of_sync\<close>.
\<close>

fun compare_loop ::
  "(json \<times> collection_info) list \<Rightarrow> (json \<times> collection_info) list \<Rightarrow> json list \<Rightarrow>
   entry list \<times> json \<times> json \<times> nat \<Rightarrow> (entry list \<times> json \<times> json \<times> nat) outcome" where
  "compare_loop local_dict vps_dict [] st = Returns st"
| "compare_loop local_dict vps_dict (n # names) (comparison, tlp, tvp, oos) =
     (let local_info = dict_get_info local_dict n;
          vps_info = dict_get_info vps_dict n;
          lp = info_points_count local_info;
          vp = info_points_count vps_info
      in out_bind (py_iadd tlp lp) (\<lambda>tlp'.
         out_bind (py_iadd tvp vp) (\<lambda>tvp'.
           let sync = (py_eq lp vp \<and> \<not> info_missing local_info \<and> \<not> info_missing vps_info)
           in out_bind (py_sub lp vp) (\<lambda>d.
                compare_loop local_dict vps_dict names
                  (comparison @
                     [\<lparr>name = n, local_points = lp, vps_points = vp, difference = d,
                       in_sync = sync, local_only = info_missing vps_info,
                       vps_only = info_missing local_info\<rparr>],
                   tlp', tvp', if \<not> sync then oos + 1 else oos)))))"

text \<open>Lines 437--484: the report built from the two inventories, stamped with the clock's
  reading.\<close>

definition compare_report :: "string \<Rightarrow> collection_info list \<Rightarrow> collection_info list \<Rightarrow> payload outcome" where
  "compare_report timestamp local_colls vps_colls =
     (let local_dict = dict_by_name local_colls;
          vps_dict = dict_by_name vps_colls;
          all_names = remdups (map fst local_dict @ map fst vps_dict)
      in (case py_sorted_key id all_names of
            None \<Rightarrow> NotModelled
          | Some names \<Rightarrow>
              out_bind (compare_loop local_dict vps_dict names ([], JInt 0, JInt 0, 0))
                (\<lambda>(comparison, tlp, tvp, oos).
                   out_bind (py_sub tlp tvp) (\<lambda>d.
                     Returns (CompareAll timestamp
                       \<lparr>total_collections = length all_names,
                        local_collections = length local_dict,
                        vps_collections = length vps_dict,
                        out_of_sync = oos,
                        total_local_points = tlp,
                        total_vps_points = tvp,
                        total_difference = d\<rparr>
                       comparison)))))"

text \<open>Lines 434--484: the comparison of all collections.\<close>

definition compare_all :: "world \<Rightarrow> config \<Rightarrow> payload outcome" where
  "compare_all w cfg =
     (case get_all_collections_with_counts w (SOURCE_REST_URL cfg) None of
        None \<Rightarrow> NotModelled
      | Some local_colls \<Rightarrow>
     (case get_all_collections_with_counts w (TARGET_REST_URL cfg) (Some (TARGET_API_KEY cfg)) of
        None \<Rightarrow> NotModelled
      | Some vps_colls \<Rightarrow> compare_report (now w) local_colls vps_colls))"

text \<open>Lines 419--431: the comparison of one collection.\<close>

definition compare_one :: "world \<Rightarrow> config \<Rightarrow> json \<Rightarrow> payload outcome" where
  "compare_one w cfg collection_name =
     (let local_info = get_collection_info w (SOURCE_REST_URL cfg) collection_name None;
          vps_info = get_collection_info w (TARGET_REST_URL cfg) collection_name (Some (TARGET_API_KEY cfg));
          lp = info_points_count local_info;
          vp = info_points_count vps_info
      in out_bind (py_sub lp vp) (\<lambda>d.
           Returns (CompareOne collection_name local_info vps_info (py_eq lp vp) d)))"

text \<open>
  \<^verbatim>\<open>call_tool(name, arguments)\<close>: how the call ends, and the command lines of the sync
  scripts it has launched, in order.
\<close>

definition call_tool :: "world \<Rightarrow> config \<Rightarrow> string \<Rightarrow> (string \<rightharpoonup> json) \<Rightarrow> payload outcome \<times> json list list" where
  "call_tool w cfg tool arguments =
     (if tool = ''qdrant_sync_status'' then
        (let local_status = check_qdrant_connectivity w (SOURCE_REST_URL cfg) None;
             vps_status = check_qdrant_connectivity w (TARGET_REST_URL cfg) (Some (TARGET_API_KEY cfg))
         in (Returns (StatusReport (now w) local_status vps_status
               (status local_status = ''connected'' \<and> status vps_status = ''connected'')), []))
      else if tool = ''qdrant_sync_all'' then
        (if \<not> py_truthy (arg_get arguments ''confirm'' (JBool False)) then
           (Returns (ErrorReport
              ''Confirmation required. Set confirm=true to proceed with full sync.''
              (Some ''This will sync all collections from local to VPS and may take 5-10 minutes.'')), [])
         else (case run_sync_script w cfg None None of (r, cmd) \<Rightarrow> (Returns (SyncReport r), [cmd])))
      else if tool = ''qdrant_sync_collection'' then
        (let collection_name = arg_get arguments ''collection_name'' JNull
         in if \<not> py_truthy collection_name then
              (Returns (ErrorReport ''collection_name is required'' None), [])
            else (case run_sync_script w cfg (Some [JStr ''--collection'', collection_name]) None of
                    (r, cmd) \<Rightarrow> (Returns (SyncReport r), [cmd])))
      else if tool = ''qdrant_sync_dry_run'' then
        (case run_sync_script w cfg (Some [JStr ''--dry-run'']) None of
           (r, cmd) \<Rightarrow> (Returns (SyncReport r), [cmd]))
      else if tool = ''qdrant_sync_logs'' then
        (case logs_count arguments of
           Inl e \<Rightarrow> (Raises e, [])
         | Inr count \<Rightarrow> (Returns (LogsReport (get_recent_logs w cfg count)), []))
      else if tool = ''qdrant_compare_collections'' then
        (let collection_name = arg_get arguments ''collection_name'' JNull
         in if py_truthy collection_name then (compare_one w cfg collection_name, [])
            else (compare_all w cfg, []))
      else if tool = ''qdrant_sync_from_vps_all'' then
        (if \<not> py_truthy (arg_get arguments ''confirm'' (JBool False)) then
           (Returns (ErrorReport
              ''Confirmation required. Set confirm=true to proceed with full sync from VPS.''
              (Some ''This will sync all collections from VPS to local and may take 5-10 minutes.'')), [])
         else (case run_sync_script w cfg (Some []) (Some (SYNC_SCRIPT_REVERSE cfg)) of
                 (r, cmd) \<Rightarrow> (Returns (SyncReport r), [cmd])))
      else if tool = ''qdrant_sync_from_vps_collection'' then
        (let collection_name = arg_get arguments ''collection_name'' JNull
         in if \<not> py_truthy collection_name then
              (Returns (ErrorReport ''collection_name is required'' None), [])
            else (case run_sync_script w cfg (Some [JStr ''--collection'', collection_name])
                         (Some (SYNC_SCRIPT_REVERSE cfg)) of
                    (r, cmd) \<Rightarrow> (Returns (SyncReport r), [cmd])))
      else if tool = ''qdrant_sync_from_vps_dry_run'' then
        (case run_sync_script w cfg (Some [JStr ''--dry-run'']) (Some (SYNC_SCRIPT_REVERSE cfg)) of
           (r, cmd) \<Rightarrow> (Returns (SyncReport r), [cmd]))
      else (Returns (ErrorReport (''Unknown tool: '' @ tool) None), []))"

section \<open>Concrete stores and read-outs used in the properties\<close>

text \<open>The configuration that the module falls back to when nothing is set.\<close>

definition default_config :: config where
  "default_config =
     \<lparr>SOURCE_REST_URL = ''http://localhost:6335'',
      TARGET_REST_URL = ''http://74.50.49.35:6333'',
      TARGET_API_KEY = [],
      SYNC_SCRIPT = ''/home/vanya/scripts/sync-qdrant-to-vps.sh'',
      SYNC_SCRIPT_REVERSE = ''/home/vanya/scripts/sync-qdrant-from-vps.sh'',
      LOG_DIR = ''/home/vanya/logs''\<rparr>"

text \<open>The bodies of the store's two answers, as its interface documents them.\<close>

definition inventory_body :: "string list \<Rightarrow> json" where
  "inventory_body ns =
     JObj [(''result'', JObj [(''collections'', JArr (map (\<lambda>n. JObj [(''name'', JStr n)]) ns))])]"

definition stat_body :: "int \<Rightarrow> json" where
  "stat_body n =
     JObj [(''result'', JObj [(''status'', JStr ''green''), (''points_count'', JInt n),
       (''vectors_count'', JInt n), (''indexed_vectors_count'', JInt 0)])]"

text \<open>A store that holds the collections \<open>cs\<close> (name and point count) and answers 404 for
  any other name.\<close>

definition store_inventory :: "(string \<times> int) list \<Rightarrow> http_outcome" where
  "store_inventory cs = Got (Response 200 (Inr (inventory_body (map fst cs))))"

definition store_stat :: "(string \<times> int) list \<Rightarrow> json \<Rightarrow> http_outcome" where
  "store_stat cs n =
     (case map_of cs (str_of n) of
        Some k \<Rightarrow> if is_str n then Got (Response 200 (Inr (stat_body k)))
                  else Got (Response 404 (Inr (JObj [])))
      | None \<Rightarrow> Got (Response 404 (Inr (JObj []))))"

text \<open>
  The scenario of the specification: the local store holds A (10 points) and B (5 points),
  the remote store holds A (10 points) and C (3 points); no sync script can be launched,
  the log directory is empty.
\<close>

definition scenario_world :: world where
  "scenario_world =
     \<lparr>get_collections = (\<lambda>url key.
        if url = ''http://localhost:6335'' then store_inventory [(''A'', 10), (''B'', 5)]
        else if url = ''http://74.50.49.35:6333'' then store_inventory [(''A'', 10), (''C'', 3)]
        else ClientError ''All connection attempts failed''),
      get_collection = (\<lambda>url n key.
        if url = ''http://localhost:6335'' then store_stat [(''A'', 10), (''B'', 5)] n
        else if url = ''http://74.50.49.35:6333'' then store_stat [(''A'', 10), (''C'', 3)] n
        else ClientError ''All connection attempts failed''),
      subprocess_run = (\<lambda>cmd t. LaunchError ''[Errno 2] No such file or directory''),
      glob = (\<lambda>pattern. []),
      read_log = (\<lambda>log_file. Inl ''[Errno 2] No such file or directory''),
      now = ''2025-11-23T10:00:00''\<rparr>"

text \<open>The report of a call with its timestamp replaced; a report without a timestamp is
  left as it is.\<close>

fun with_timestamp :: "string \<Rightarrow> payload outcome \<Rightarrow> payload outcome" where
  "with_timestamp t (Returns (StatusReport _ l v r)) = Returns (StatusReport t l v r)"
| "with_timestamp t (Returns (CompareAll _ s es)) = Returns (CompareAll t s es)"
| "with_timestamp t out = out"

text \<open>A stat request that does not give a collection: the client raises, or the status
  is not 200 (a store answers 404 for a collection it does not hold).\<close>

fun fetch_fails :: "http_outcome \<Rightarrow> bool" where
  "fetch_fails (ClientError _) = True"
| "fetch_fails (Got response) = (status_code response \<noteq> 200)"

text \<open>\<^verbatim>\<open>c.get("name")\<close> on a collection object of the inventory.\<close>

fun is_obj :: "json \<Rightarrow> bool" where
  "is_obj (JObj _) = True"
| "is_obj _ = False"

fun name_of :: "json \<Rightarrow> json" where
  "name_of (JObj kvs) = (case map_of kvs ''name'' of Some v \<Rightarrow> v | None \<Rightarrow> JNull)"
| "name_of _ = JNull"



text \<open>The scenario with three logs in the log directory, listed in no particular order.\<close>

definition three_logs_world :: world where
  "three_logs_world =
     scenario_world\<lparr>glob := (\<lambda>pattern.
         if pattern = ''/home/vanya/logs/qdrant-sync-*.log'' then
           [''/home/vanya/logs/qdrant-sync-2025-11-22.log'',
            ''/home/vanya/logs/qdrant-sync-2025-11-20.log'',
            ''/home/vanya/logs/qdrant-sync-2025-11-23.log'']
         else []),
       read_log := (\<lambda>log_file. Inr (''synced 3 collections'', 20))\<rparr>"

section \<open>The Store Client\<close>

lemma len_iter: "py_len v = Inr n \<Longrightarrow> py_iter v = Inr cs \<Longrightarrow> length cs = n"
  by (cases v) auto

lemma exn_map_length: "exn_map f xs = Inr ys \<Longrightarrow> length ys = length xs"
  by (induction xs arbitrary: ys) (auto simp: exn_bind_def split: sum.splits)

lemma connected_fields_count:
  assumes "connected_fields data = Inr (n, names)"
  shows "n = length names"
proof -
  from assms obtain collections cs where
    len: "py_len collections = Inr n" and iter: "py_iter collections = Inr cs"
    and names: "exn_map (\<lambda>c. py_get c ''name'' JNull) cs = Inr names"
    by (auto simp: connected_fields_def exn_bind_def split: sum.splits)
  from len iter have "length cs = n" by (rule len_iter)
  moreover from names have "length names = length cs" by (rule exn_map_length)
  ultimately show ?thesis by simp
qed

lemma check_connected_count:
  "check_qdrant_connectivity w url key = Connected u n names \<Longrightarrow> u = url \<and> n = length names"
  by (auto simp: check_qdrant_connectivity_def
      split: http_outcome.splits if_splits sum.splits prod.splits dest: connected_fields_count)

lemma exn_map_objs:
  "list_all is_obj cs \<Longrightarrow> exn_map (\<lambda>c. py_get c ''name'' JNull) cs = Inr (map name_of cs)"
proof (induction cs)
  case Nil
  then show ?case by simp
next
  case (Cons c cs)
  then obtain kvs where "c = JObj kvs" by (cases c) auto
  with Cons show ?case by (simp add: exn_bind_def)
qed

lemma connected_fields_well_formed:
  "map_of kvs ''result'' = Some (JObj rs) \<Longrightarrow> map_of rs ''collections'' = Some (JArr cs) \<Longrightarrow>
   list_all is_obj cs \<Longrightarrow> connected_fields (JObj kvs) = Inr (length cs, map name_of cs)"
  by (simp add: connected_fields_def exn_bind_def exn_map_objs)

lemma status_cases: "status r \<in> {''connected'', ''error'', ''unreachable''}"
  by (cases r) auto

lemma str_int_503: "str_int 503 = ''503''"
  by code_simp

text \<open>
  C7, as the code has it. The probe returns a report for every answer of the store: a
  transport failure gives \<open>unreachable\<close> with the failure's description, a status other
  than 200 gives \<open>error\<close> with the code, and a 200 gives \<open>connected\<close> or
  \<open>unreachable\<close>: \<open>unreachable\<close> with the parser's message when the body is not JSON,
  \<open>connected\<close> with the names when the body is an object with a list of collection
  objects under \<open>result.collections\<close>. Whenever the report is \<open>connected\<close>, its count
  is the length of its list of names.
\<close>

theorem probe_total:
  "(get_collections w url (headers key) = ClientError m \<longrightarrow>
      check_qdrant_connectivity w url key = Unreachable url m) \<and>
   (get_collections w url (headers key) = Got response \<and> status_code response \<noteq> 200 \<longrightarrow>
      check_qdrant_connectivity w url key = Error url (''HTTP '' @ str_int (status_code response))) \<and>
   (get_collections w url (headers key) = Got (Response 200 (Inl m')) \<longrightarrow>
      check_qdrant_connectivity w url key = Unreachable url m') \<and>
   (get_collections w url (headers key) = Got (Response 200 (Inr (JObj kvs))) \<and>
      map_of kvs ''result'' = Some (JObj rs) \<and> map_of rs ''collections'' = Some (JArr cs) \<and>
      list_all is_obj cs \<longrightarrow>
      check_qdrant_connectivity w url key = Connected url (length cs) (map name_of cs)) \<and>
   (get_collections w url (headers key) = Got response \<and> status_code response = 200 \<longrightarrow>
      status (check_qdrant_connectivity w url key) \<in> {''connected'', ''unreachable''}) \<and>
   (check_qdrant_connectivity w url key = Connected u n names \<longrightarrow> u = url \<and> n = length names) \<and>
   status (check_qdrant_connectivity w url key) \<in> {''connected'', ''error'', ''unreachable''}"
proof -
  have a: "get_collections w url (headers key) = ClientError m \<longrightarrow>
      check_qdrant_connectivity w url key = Unreachable url m"
    by (simp add: check_qdrant_connectivity_def)
  have b: "get_collections w url (headers key) = Got response \<and> status_code response \<noteq> 200 \<longrightarrow>
      check_qdrant_connectivity w url key = Error url (''HTTP '' @ str_int (status_code response))"
    by (simp add: check_qdrant_connectivity_def)
  have c: "get_collections w url (headers key) = Got (Response 200 (Inl m')) \<longrightarrow>
      check_qdrant_connectivity w url key = Unreachable url m'"
    by (simp add: check_qdrant_connectivity_def)
  have d: "get_collections w url (headers key) = Got (Response 200 (Inr (JObj kvs))) \<and>
      map_of kvs ''result'' = Some (JObj rs) \<and> map_of rs ''collections'' = Some (JArr cs) \<and>
      list_all is_obj cs \<longrightarrow>
      check_qdrant_connectivity w url key = Connected url (length cs) (map name_of cs)"
    by (simp add: check_qdrant_connectivity_def connected_fields_well_formed)
  have e: "check_qdrant_connectivity w url key = Connected u n names \<longrightarrow> u = url \<and> n = length names"
    using check_connected_count by blast
  have f: "get_collections w url (headers key) = Got response \<and> status_code response = 200 \<longrightarrow>
      status (check_qdrant_connectivity w url key) \<in> {''connected'', ''unreachable''}"
    by (simp add: check_qdrant_connectivity_def split: sum.splits prod.splits)
  show ?thesis using a b c d e f status_cases by blast
qed

theorem probe_total_witness:
  "check_qdrant_connectivity (scenario_world\<lparr>get_collections := \<lambda>url key. ClientError ''timed out''\<rparr>)
      ''http://localhost:6335'' None = Unreachable ''http://localhost:6335'' ''timed out'' \<and>
   check_qdrant_connectivity (scenario_world\<lparr>get_collections := \<lambda>url key. Got (Response 503 (Inr JNull))\<rparr>)
      ''http://localhost:6335'' None = Error ''http://localhost:6335'' ''HTTP 503'' \<and>
   check_qdrant_connectivity (scenario_world\<lparr>get_collections := \<lambda>url key. Got (Response 200 (Inl ''Expecting value''))\<rparr>)
      ''http://localhost:6335'' None = Unreachable ''http://localhost:6335'' ''Expecting value'' \<and>
   check_qdrant_connectivity scenario_world ''http://localhost:6335'' None =
      Connected ''http://localhost:6335'' 2 [JStr ''A'', JStr ''B'']"
proof -
  have a: "check_qdrant_connectivity (scenario_world\<lparr>get_collections := \<lambda>url key. ClientError ''timed out''\<rparr>)
      ''http://localhost:6335'' None = Unreachable ''http://localhost:6335'' ''timed out''"
    using probe_total [where w = "scenario_world\<lparr>get_collections := \<lambda>url key. ClientError ''timed out''\<rparr>"
      and url = "''http://localhost:6335''" and key = None and m = "''timed out''"]
    by simp
  have b: "check_qdrant_connectivity (scenario_world\<lparr>get_collections := \<lambda>url key. Got (Response 503 (Inr JNull))\<rparr>)
      ''http://localhost:6335'' None = Error ''http://localhost:6335'' ''HTTP 503''"
    using probe_total [where w = "scenario_world\<lparr>get_collections := \<lambda>url key. Got (Response 503 (Inr JNull))\<rparr>"
      and url = "''http://localhost:6335''" and key = None and response = "Response 503 (Inr JNull)"]
    by (simp add: str_int_503)
  have c: "check_qdrant_connectivity (scenario_world\<lparr>get_collections := \<lambda>url key. Got (Response 200 (Inl ''Expecting value''))\<rparr>)
      ''http://localhost:6335'' None = Unreachable ''http://localhost:6335'' ''Expecting value''"
    using probe_total [where w = "scenario_world\<lparr>get_collections := \<lambda>url key. Got (Response 200 (Inl ''Expecting value''))\<rparr>"
      and url = "''http://localhost:6335''" and key = None and m' = "''Expecting value''"]
    by simp
  have get: "get_collections scenario_world ''http://localhost:6335'' (headers None) =
      Got (Response 200 (Inr (JObj [(''result'', JObj [(''collections'',
        JArr [JObj [(''name'', JStr ''A'')], JObj [(''name'', JStr ''B'')]])])])))"
    by (simp add: scenario_world_def store_inventory_def inventory_body_def)
  have d: "check_qdrant_connectivity scenario_world ''http://localhost:6335'' None =
      Connected ''http://localhost:6335'' 2 [JStr ''A'', JStr ''B'']"
    using probe_total [where w = scenario_world and url = "''http://localhost:6335''" and key = None
      and kvs = "[(''result'', JObj [(''collections'', JArr [JObj [(''name'', JStr ''A'')], JObj [(''name'', JStr ''B'')]])])]"
      and rs = "[(''collections'', JArr [JObj [(''name'', JStr ''A'')], JObj [(''name'', JStr ''B'')]])]"
      and cs = "[JObj [(''name'', JStr ''A'')], JObj [(''name'', JStr ''B'')]]"] get
    by simp
  show ?thesis using a b c d by simp
qed

text \<open>
  C7 as stated fails: a store (or a proxy in front of it) that answers 200 with a body
  that is not JSON is reported \<open>unreachable\<close>, not \<open>connected\<close>.
\<close>

theorem probe_ok_response_unreachable:
  "check_qdrant_connectivity
     (scenario_world\<lparr>get_collections :=
        \<lambda>url key. Got (Response 200 (Inl ''Expecting value: line 1 column 1 (char 0)''))\<rparr>)
     ''http://localhost:6335'' None =
   Unreachable ''http://localhost:6335'' ''Expecting value: line 1 column 1 (char 0)''"
  by (simp add: check_qdrant_connectivity_def)

section \<open>The comparison of all collections\<close>

lemma float_add_special: "float_add cx cy = Some f \<Longrightarrow> f = PosInf \<or> f = NegInf \<or> f = NaN"
  by (cases cx; cases cy) auto

lemma num_add_cases:
  "num_add x y = Returns d \<Longrightarrow>
   (\<exists>a b. x = IntVal a \<and> y = IntVal b \<and> d = JInt (a + b)) \<or>
   (\<exists>f. d = JFloat f \<and> (f = PosInf \<or> f = NegInf \<or> f = NaN))"
  by (cases x; cases y)
     (auto simp: float_result_def split: if_splits option.splits sum.splits dest: float_add_special)




lemma py_iadd_int: "py_num v = Some n \<Longrightarrow> py_iadd (JInt a) v = Returns (JInt (a + n))"
  by (cases v) (auto simp: py_iadd_def)

lemma py_sub_int: "py_num a = Some x \<Longrightarrow> py_num b = Some y \<Longrightarrow> py_sub a b = Returns (JInt (x - y))"
  by (cases a; cases b) (auto simp: py_sub_def)














lemma scenario_compare_all:
  "compare_all scenario_world default_config =
     Returns (CompareAll ''2025-11-23T10:00:00''
        \<lparr>total_collections = 3, local_collections = 2, vps_collections = 2, out_of_sync = 2,
         total_local_points = JInt 15, total_vps_points = JInt 13, total_difference = JInt 2\<rparr>
        [\<lparr>name = JStr ''A'', local_points = JInt 10, vps_points = JInt 10, difference = JInt 0,
          in_sync = True, local_only = False, vps_only = False\<rparr>,
         \<lparr>name = JStr ''B'', local_points = JInt 5, vps_points = JInt 0, difference = JInt 5,
          in_sync = False, local_only = True, vps_only = False\<rparr>,
         \<lparr>name = JStr ''C'', local_points = JInt 0, vps_points = JInt 3, difference = JInt (- 3),
          in_sync = False, local_only = False, vps_only = True\<rparr>])"
  by code_simp

lemma scenario_call:
  "call_tool scenario_world default_config ''qdrant_compare_collections'' Map.empty =
     (compare_all scenario_world default_config, [])"
  by (simp add: call_tool_def arg_get_def)



text \<open>
  C1. With the local store holding A (10 points) and B (5 points) and the remote store
  holding A (10 points) and C (3 points), the comparison of all collections returns the
  three entries A, B, C in this order: A in sync with difference 0; B with
  \<open>local_only\<close> set (and \<open>vps_only\<close> clear) and difference 5; C with \<open>vps_only\<close> set
  (and \<open>local_only\<close> clear) and difference -3; the summary counts 3 collections, 2 of
  them out of sync, and a total difference of 2.
\<close>

theorem compare_all_scenario:
  "call_tool scenario_world default_config ''qdrant_compare_collections'' Map.empty =
     (Returns (CompareAll ''2025-11-23T10:00:00''
        \<lparr>total_collections = 3, local_collections = 2, vps_collections = 2, out_of_sync = 2,
         total_local_points = JInt 15, total_vps_points = JInt 13, total_difference = JInt 2\<rparr>
        [\<lparr>name = JStr ''A'', local_points = JInt 10, vps_points = JInt 10, difference = JInt 0,
          in_sync = True, local_only = False, vps_only = False\<rparr>,
         \<lparr>name = JStr ''B'', local_points = JInt 5, vps_points = JInt 0, difference = JInt 5,
          in_sync = False, local_only = True, vps_only = False\<rparr>,
         \<lparr>name = JStr ''C'', local_points = JInt 0, vps_points = JInt 3, difference = JInt (- 3),
          in_sync = False, local_only = False, vps_only = True\<rparr>]), [])"
  by (simp only: scenario_call scenario_compare_all)







section \<open>Reports and the clock\<close>

lemma check_same_store:
  "get_collections w' = get_collections w \<Longrightarrow>
   check_qdrant_connectivity w' url key = check_qdrant_connectivity w url key"
  by (simp add: check_qdrant_connectivity_def)

lemma info_same_store:
  "get_collection w' = get_collection w \<Longrightarrow>
   get_collection_info w' url n key = get_collection_info w url n key"
  by (simp add: get_collection_info_def)

lemma inventory_same_store:
  assumes "get_collections w' = get_collections w" and "get_collection w' = get_collection w"
  shows "get_all_collections_with_counts w' url key = get_all_collections_with_counts w url key"
  by (simp add: get_all_collections_with_counts_def check_same_store [OF assms(1)]
      info_same_store [OF assms(2)] cong: conn_report.case_cong)

lemma compare_one_same_store:
  assumes "get_collection w' = get_collection w"
  shows "compare_one w' cfg n = compare_one w cfg n"
  by (simp add: compare_one_def info_same_store [OF assms])

lemma compare_one_no_timestamp: "with_timestamp t (compare_one w cfg n) = compare_one w cfg n"
  by (cases "py_sub (info_points_count (get_collection_info w (SOURCE_REST_URL cfg) n None))
                (info_points_count (get_collection_info w (TARGET_REST_URL cfg) n (Some (TARGET_API_KEY cfg))))")
     (simp_all add: compare_one_def Let_def out_bind_def)

lemma compare_report_timestamp:
  "with_timestamp t' (compare_report t lc vc) = compare_report t' lc vc"
proof (cases "py_sorted_key id (remdups (map fst (dict_by_name lc) @ map fst (dict_by_name vc)))")
  case None
  then show ?thesis by (simp add: compare_report_def Let_def)
next
  case (Some names)
  show ?thesis
  proof (cases "compare_loop (dict_by_name lc) (dict_by_name vc) names ([], JInt 0, JInt 0, 0)")
    case (Returns st)
    obtain comparison tlp tvp oos where st: "st = (comparison, tlp, tvp, oos)"
      using prod_cases4 by blast
    show ?thesis
      by (cases "py_sub tlp tvp") (simp_all add: compare_report_def Let_def out_bind_def Some Returns st)
  next
    case (Raises e)
    with Some show ?thesis by (simp add: compare_report_def Let_def out_bind_def)
  next
    case NotModelled
    with Some show ?thesis by (simp add: compare_report_def Let_def out_bind_def)
  qed
qed

lemma compare_all_timestamp:
  "with_timestamp t (compare_all w cfg) = compare_all (w\<lparr>now := t\<rparr>) cfg"
proof -
  have inv: "get_all_collections_with_counts (w\<lparr>now := t\<rparr>) url key = get_all_collections_with_counts w url key"
    for url key
    by (rule inventory_same_store) simp_all
  show ?thesis
  proof (cases "get_all_collections_with_counts w (SOURCE_REST_URL cfg) None")
    case None
    then show ?thesis by (simp add: compare_all_def inv)
  next
    case (Some lc)
    show ?thesis
    proof (cases "get_all_collections_with_counts w (TARGET_REST_URL cfg) (Some (TARGET_API_KEY cfg))")
      case None
      with Some show ?thesis by (simp add: compare_all_def inv)
    next
      case vc: (Some vc)
      with Some show ?thesis by (simp add: compare_all_def inv compare_report_timestamp)
    qed
  qed
qed

lemma compare_all_same_store:
  assumes "get_collections w' = get_collections w" and "get_collection w' = get_collection w"
  shows "compare_all w' cfg = with_timestamp (now w') (compare_all w cfg)"
proof -
  have a: "get_all_collections_with_counts w' url key = get_all_collections_with_counts w url key"
    for url key
    using assms by (rule inventory_same_store)
  have b: "get_all_collections_with_counts (w\<lparr>now := now w'\<rparr>) url key = get_all_collections_with_counts w url key"
    for url key
    by (rule inventory_same_store) simp_all
  have "compare_all w' cfg = compare_all (w\<lparr>now := now w'\<rparr>) cfg"
    by (simp add: compare_all_def a b cong: option.case_cong)
  then show ?thesis by (simp add: compare_all_timestamp)
qed

lemma compare_all_own_timestamp: "with_timestamp (now w) (compare_all w cfg) = compare_all w cfg"
  by (simp add: compare_all_timestamp)

text \<open>
  C2, as the code has it. Two calls of the status operation, or of the compare
  operation, against stores that answer every request the same way return reports that
  agree in every field but \<open>timestamp\<close>, which is the clock's reading at each call; when
  the clock reads the same, the reports are identical. The report of a single-collection
  comparison has no timestamp.
\<close>

theorem reports_equal_up_to_timestamp:
  assumes "get_collections w' = get_collections w" and "get_collection w' = get_collection w"
    and "tool = ''qdrant_sync_status'' \<or> tool = ''qdrant_compare_collections''"
  shows "call_tool w' cfg tool args =
           (with_timestamp (now w') (fst (call_tool w cfg tool args)), snd (call_tool w cfg tool args)) \<and>
         (now w' = now w \<longrightarrow> call_tool w' cfg tool args = call_tool w cfg tool args)"
proof -
  from assms(3) show ?thesis
  proof
    assume "tool = ''qdrant_sync_status''"
    then show ?thesis
      by (simp add: call_tool_def Let_def check_same_store [OF assms(1)])
  next
    assume tool: "tool = ''qdrant_compare_collections''"
    show ?thesis
    proof (cases "py_truthy (arg_get args ''collection_name'' JNull)")
      case True
      with tool show ?thesis
        by (simp add: call_tool_def Let_def compare_one_same_store [OF assms(2)] compare_one_no_timestamp)
    next
      case False
      have "compare_all w' cfg = with_timestamp (now w') (compare_all w cfg)"
        using assms(1,2) by (rule compare_all_same_store)
      moreover have "now w' = now w \<longrightarrow> with_timestamp (now w') (compare_all w cfg) = compare_all w cfg"
        by (simp add: compare_all_own_timestamp)
      ultimately show ?thesis using tool False
        by (simp add: call_tool_def Let_def)
    qed
  qed
qed

lemma scenario_status:
  "call_tool (scenario_world\<lparr>now := t\<rparr>) default_config ''qdrant_sync_status'' Map.empty =
     (Returns (StatusReport t
        (Connected ''http://localhost:6335'' 2 [JStr ''A'', JStr ''B''])
        (Connected ''http://74.50.49.35:6333'' 2 [JStr ''A'', JStr ''C'']) True), [])"
  by (simp add: call_tool_def check_qdrant_connectivity_def scenario_world_def default_config_def
      store_inventory_def inventory_body_def headers_def connected_fields_def exn_bind_def)

theorem reports_equal_up_to_timestamp_witness:
  "call_tool (scenario_world\<lparr>now := ''2025-11-23T10:00:01''\<rparr>) default_config ''qdrant_sync_status'' Map.empty =
     (with_timestamp ''2025-11-23T10:00:01''
        (fst (call_tool (scenario_world\<lparr>now := ''2025-11-23T10:00:00''\<rparr>) default_config ''qdrant_sync_status'' Map.empty)),
      snd (call_tool (scenario_world\<lparr>now := ''2025-11-23T10:00:00''\<rparr>) default_config ''qdrant_sync_status'' Map.empty))"
  using reports_equal_up_to_timestamp
    [where w' = "scenario_world\<lparr>now := ''2025-11-23T10:00:01''\<rparr>"
       and w = "scenario_world\<lparr>now := ''2025-11-23T10:00:00''\<rparr>"
       and tool = "''qdrant_sync_status''" and cfg = default_config and args = Map.empty]
  by simp

text \<open>
  C2 as stated fails: two status calls against the same stores, one second apart, return
  reports that differ (in their timestamp).
\<close>

theorem status_reports_differ:
  "call_tool (scenario_world\<lparr>now := ''2025-11-23T10:00:00''\<rparr>) default_config ''qdrant_sync_status'' Map.empty \<noteq>
   call_tool (scenario_world\<lparr>now := ''2025-11-23T10:00:01''\<rparr>) default_config ''qdrant_sync_status'' Map.empty"
  by (simp add: scenario_status)

section \<open>The log retrieval\<close>

lemma logs_count_int:
  assumes "args ''count'' = Some (JInt n)"
  shows "logs_count args =
           Inr (if py_truthy (arg_get args ''latest_only'' (JBool False)) then 1 else min n 10)"
  using assms by (simp add: logs_count_def py_min_10_def py_index_def arg_get_def exn_bind_def)

lemma length_get_recent_logs: "0 \<le> c \<Longrightarrow> length (get_recent_logs w cfg c) \<le> nat c"
  by (simp add: get_recent_logs_def py_slice_to_def)

text \<open>
  C3, as the code has it. For every integer \<open>n\<close> from 0 on passed as \<open>count\<close>, the handler
  caps the count from above only: it passes \<open>min n 10\<close> to the log reader (1 when
  \<open>latest_only\<close> is set), so the effective count lies between 0 and 10, it is at least 1
  when \<open>n\<close> is, and at most that many logs are listed.
\<close>

theorem logs_count_capped:
  assumes "args ''count'' = Some (JInt n)" and "0 \<le> n"
  shows "\<exists>c. logs_count args = Inr c \<and>
           c = (if py_truthy (arg_get args ''latest_only'' (JBool False)) then 1 else min n 10) \<and>
           0 \<le> c \<and> c \<le> 10 \<and> (1 \<le> n \<longrightarrow> 1 \<le> c) \<and>
           call_tool w cfg ''qdrant_sync_logs'' args = (Returns (LogsReport (get_recent_logs w cfg c)), []) \<and>
           length (get_recent_logs w cfg c) \<le> nat c"
proof -
  let ?c = "if py_truthy (arg_get args ''latest_only'' (JBool False)) then 1 else min n 10"
  have count: "logs_count args = Inr ?c" using assms(1) by (rule logs_count_int)
  have range: "0 \<le> ?c \<and> ?c \<le> 10 \<and> (1 \<le> n \<longrightarrow> 1 \<le> ?c)" using assms(2) by simp
  then have len: "length (get_recent_logs w cfg ?c) \<le> nat ?c"
    using length_get_recent_logs by blast
  have call: "call_tool w cfg ''qdrant_sync_logs'' args = (Returns (LogsReport (get_recent_logs w cfg ?c)), [])"
    by (simp add: call_tool_def count)
  from count range len call show ?thesis by blast
qed

theorem logs_count_capped_witness:
  "logs_count [''count'' \<mapsto> JInt 25] = Inr 10 \<and>
   call_tool scenario_world default_config ''qdrant_sync_logs'' [''count'' \<mapsto> JInt 25] =
     (Returns (LogsReport (get_recent_logs scenario_world default_config 10)), []) \<and>
   length (get_recent_logs scenario_world default_config 10) \<le> 10"
  using logs_count_capped [where args = "[''count'' \<mapsto> JInt 25]" and n = 25
      and w = scenario_world and cfg = default_config]
  by (simp add: arg_get_def)

text \<open>C3 as stated fails: a count of 0 is passed on as it is, below 1.\<close>

theorem logs_count_below_one:
  "logs_count [''count'' \<mapsto> JInt 0] = Inr 0 \<and>
   call_tool scenario_world default_config ''qdrant_sync_logs'' [''count'' \<mapsto> JInt 0] =
     (Returns (LogsReport (get_recent_logs scenario_world default_config 0)), [])"
  by (simp add: logs_count_def py_min_10_def py_index_def arg_get_def exn_bind_def call_tool_def)

lemma length_get_recent_logs_one: "length (get_recent_logs w cfg 1) \<le> 1"
  by (simp add: get_recent_logs_def py_slice_to_def)

text \<open>
  C9. When \<open>latest_only\<close> is true and \<open>count\<close> is absent or any integer, the handler
  passes the count 1 to the log reader, and at most one log is returned.
\<close>

theorem latest_only_forces_one:
  assumes "args ''latest_only'' = Some (JBool True)"
    and "args ''count'' = None \<or> args ''count'' = Some (JInt n)"
  shows "logs_count args = Inr 1 \<and>
         call_tool w cfg ''qdrant_sync_logs'' args = (Returns (LogsReport (get_recent_logs w cfg 1)), []) \<and>
         length (get_recent_logs w cfg 1) \<le> 1"
proof -
  from assms have "logs_count args = Inr 1"
    by (auto simp: logs_count_def py_min_10_def py_index_def arg_get_def exn_bind_def)
  moreover from this have
    "call_tool w cfg ''qdrant_sync_logs'' args = (Returns (LogsReport (get_recent_logs w cfg 1)), [])"
    by (simp add: call_tool_def)
  ultimately show ?thesis using length_get_recent_logs_one [of w cfg] by blast
qed

lemma three_logs_pattern:
  "path_join (LOG_DIR default_config) ''qdrant-sync-*.log'' = ''/home/vanya/logs/qdrant-sync-*.log''"
  by (simp add: path_join_def default_config_def)

lemma three_logs_sorted:
  "rev (sort [''/home/vanya/logs/qdrant-sync-2025-11-22.log'',
              ''/home/vanya/logs/qdrant-sync-2025-11-20.log'',
              ''/home/vanya/logs/qdrant-sync-2025-11-23.log'']) =
     [''/home/vanya/logs/qdrant-sync-2025-11-23.log'',
      ''/home/vanya/logs/qdrant-sync-2025-11-22.log'',
      ''/home/vanya/logs/qdrant-sync-2025-11-20.log'']"
  by code_simp

lemma three_logs_timestamp:
  "py_remove (py_remove (basename ''/home/vanya/logs/qdrant-sync-2025-11-23.log'') ''qdrant-sync-'') ''.log'' =
     ''2025-11-23''"
  by code_simp

lemma three_logs_latest:
  "get_recent_logs three_logs_world default_config 1 =
     [LogEntry ''/home/vanya/logs/qdrant-sync-2025-11-23.log'' ''2025-11-23'' 20 ''synced 3 collections'']"
  unfolding get_recent_logs_def three_logs_pattern Let_def
  by (simp add: three_logs_world_def three_logs_sorted three_logs_timestamp py_slice_to_def)

theorem latest_only_forces_one_witness:
  "logs_count [''latest_only'' \<mapsto> JBool True, ''count'' \<mapsto> JInt 7] = Inr 1 \<and>
   call_tool three_logs_world default_config ''qdrant_sync_logs''
       [''latest_only'' \<mapsto> JBool True, ''count'' \<mapsto> JInt 7] =
     (Returns (LogsReport
        [LogEntry ''/home/vanya/logs/qdrant-sync-2025-11-23.log'' ''2025-11-23'' 20 ''synced 3 collections'']), [])"
  using latest_only_forces_one [where args = "[''latest_only'' \<mapsto> JBool True, ''count'' \<mapsto> JInt 7]"
      and n = 7 and w = three_logs_world and cfg = default_config]
  by (simp add: three_logs_latest)

section \<open>The sync driver and the confirmation gate\<close>

text \<open>
  C8. Whatever \<^verbatim>\<open>subprocess.run\<close> does with the command line and the timeout of 1800
  seconds, \<open>run_sync_script\<close> returns a result: when the process completes, \<open>success\<close>
  says whether the exit code is 0, and the exit code and both captured streams are
  there; on the timeout, \<open>success\<close> is false, the error is the timeout message and there
  is no exit code; on any other failure, \<open>success\<close> is false and the error is the
  failure's description.
\<close>

theorem run_sync_script_result:
  assumes "run_sync_script w cfg args script_path = (r, cmd)"
  shows "(subprocess_run w cmd 1800 = Exited rc out err \<longrightarrow>
            r = \<lparr>success = (rc = 0), returncode = Some rc, stdout = Some out, stderr = Some err,
                 error = None\<rparr>) \<and>
         (subprocess_run w cmd 1800 = TimeoutExpired \<longrightarrow>
            r = \<lparr>success = False, returncode = None, stdout = None, stderr = None,
                 error = Some ''Sync operation timed out after 30 minutes''\<rparr>) \<and>
         (subprocess_run w cmd 1800 = LaunchError m \<longrightarrow>
            r = \<lparr>success = False, returncode = None, stdout = None, stderr = None,
                 error = Some m\<rparr>)"
  using assms by (auto simp: run_sync_script_def Let_def)

theorem run_sync_script_result_witness:
  "fst (run_sync_script (scenario_world\<lparr>subprocess_run := \<lambda>cmd t. Exited 1 ''syncing'' ''failed''\<rparr>)
          default_config (Some [JStr ''--dry-run'']) None) =
     \<lparr>success = False, returncode = Some 1, stdout = Some ''syncing'', stderr = Some ''failed'',
      error = None\<rparr> \<and>
   fst (run_sync_script (scenario_world\<lparr>subprocess_run := \<lambda>cmd t. if t = 1800 then TimeoutExpired else LaunchError ''''\<rparr>)
          default_config (Some [JStr ''--dry-run'']) None) =
     \<lparr>success = False, returncode = None, stdout = None, stderr = None,
      error = Some ''Sync operation timed out after 30 minutes''\<rparr> \<and>
   fst (run_sync_script scenario_world default_config (Some [JStr ''--dry-run'']) None) =
     \<lparr>success = False, returncode = None, stdout = None, stderr = None,
      error = Some ''[Errno 2] No such file or directory''\<rparr>"
proof -
  let ?w1 = "scenario_world\<lparr>subprocess_run := \<lambda>cmd t. Exited 1 ''syncing'' ''failed''\<rparr>"
  let ?w2 = "scenario_world\<lparr>subprocess_run := \<lambda>cmd t. if t = 1800 then TimeoutExpired else LaunchError ''''\<rparr>"
  let ?args = "Some [JStr ''--dry-run'']"
  have a: "fst (run_sync_script ?w1 default_config ?args None) =
      \<lparr>success = False, returncode = Some 1, stdout = Some ''syncing'', stderr = Some ''failed'',
       error = None\<rparr>"
    using run_sync_script_result [OF surjective_pairing, where w = ?w1 and cfg = default_config
        and args = ?args and script_path = None and rc = 1 and out = "''syncing''" and err = "''failed''"]
    by (simp add: run_sync_script_def Let_def)
  have b: "fst (run_sync_script ?w2 default_config ?args None) =
      \<lparr>success = False, returncode = None, stdout = None, stderr = None,
       error = Some ''Sync operation timed out after 30 minutes''\<rparr>"
    using run_sync_script_result [OF surjective_pairing, where w = ?w2 and cfg = default_config
        and args = ?args and script_path = None]
    by (simp add: run_sync_script_def Let_def)
  have c: "fst (run_sync_script scenario_world default_config ?args None) =
      \<lparr>success = False, returncode = None, stdout = None, stderr = None,
       error = Some ''[Errno 2] No such file or directory''\<rparr>"
    using run_sync_script_result [OF surjective_pairing, where w = scenario_world and cfg = default_config
        and args = ?args and script_path = None and m = "''[Errno 2] No such file or directory''"]
    by (simp add: run_sync_script_def Let_def scenario_world_def)
  show ?thesis using a b c by simp
qed

text \<open>
  C6. A full sync, forward or reverse, called with \<open>confirm\<close> absent or false returns an
  error payload with an error description and a hint, and launches no sync script; the
  call reads nothing from outside: it ends the same way in every world and under every
  configuration.
\<close>

theorem full_sync_requires_confirm:
  assumes "tool = ''qdrant_sync_all'' \<or> tool = ''qdrant_sync_from_vps_all''"
    and "args ''confirm'' = None \<or> args ''confirm'' = Some (JBool False)"
  shows "(\<exists>e h. call_tool w cfg tool args = (Returns (ErrorReport e (Some h)), [])) \<and>
         call_tool w cfg tool args = call_tool w' cfg' tool args"
proof -
  from assms(2) have falsy: "\<not> py_truthy (arg_get args ''confirm'' (JBool False))"
    by (auto simp: arg_get_def)
  from assms(1) show ?thesis
  proof
    assume "tool = ''qdrant_sync_all''"
    with falsy show ?thesis by (simp add: call_tool_def)
  next
    assume "tool = ''qdrant_sync_from_vps_all''"
    with falsy show ?thesis by (simp add: call_tool_def)
  qed
qed

theorem full_sync_requires_confirm_witness:
  "call_tool scenario_world default_config ''qdrant_sync_all'' Map.empty =
     (Returns (ErrorReport ''Confirmation required. Set confirm=true to proceed with full sync.''
        (Some ''This will sync all collections from local to VPS and may take 5-10 minutes.'')), []) \<and>
   call_tool scenario_world default_config ''qdrant_sync_from_vps_all'' [''confirm'' \<mapsto> JBool False] =
     (Returns (ErrorReport ''Confirmation required. Set confirm=true to proceed with full sync from VPS.''
        (Some ''This will sync all collections from VPS to local and may take 5-10 minutes.'')), [])"
proof -
  have a: "\<exists>e h. call_tool scenario_world default_config ''qdrant_sync_all'' Map.empty =
      (Returns (ErrorReport e (Some h)), [])"
    using full_sync_requires_confirm [where tool = "''qdrant_sync_all''" and args = Map.empty
        and w = scenario_world and cfg = default_config]
    by simp
  have b: "\<exists>e h. call_tool scenario_world default_config ''qdrant_sync_from_vps_all''
      [''confirm'' \<mapsto> JBool False] = (Returns (ErrorReport e (Some h)), [])"
    using full_sync_requires_confirm [where tool = "''qdrant_sync_from_vps_all''"
        and args = "[''confirm'' \<mapsto> JBool False]" and w = scenario_world and cfg = default_config]
    by simp
  from a b show ?thesis by (simp add: call_tool_def arg_get_def)
qed

lemma confirmed_sync_launches:
  assumes "args ''confirm'' = Some (JBool True)"
  shows "snd (call_tool w cfg ''qdrant_sync_all'' args) = [[JStr (SYNC_SCRIPT cfg)]]"
  using assms by (simp add: call_tool_def arg_get_def run_sync_script_def Let_def split: prod.splits)

section \<open>The comparison of one collection\<close>

lemma info_of_failed_fetch:
  "fetch_fails (get_collection w url n (headers key)) \<Longrightarrow>
   \<exists>m. get_collection_info w url n key = InfoError n m"
  by (cases "get_collection w url n (headers key)") (simp_all add: get_collection_info_def)

text \<open>
  C10. When the stat request for the named collection fails on both stores (the store
  answers 404 for a collection it does not hold, or any status other than 200, or the
  request itself fails), both infos carry an error and no point count, both counts
  default to 0, and the single-collection comparison reports \<open>in_sync\<close> true and
  difference 0.
\<close>

theorem compare_one_absent_in_sync:
  assumes "args ''collection_name'' = Some collection_name" and "py_truthy collection_name"
    and "fetch_fails (get_collection w (SOURCE_REST_URL cfg) collection_name (headers None))"
    and "fetch_fails (get_collection w (TARGET_REST_URL cfg) collection_name
           (headers (Some (TARGET_API_KEY cfg))))"
  shows "\<exists>le ve. call_tool w cfg ''qdrant_compare_collections'' args =
           (Returns (CompareOne collection_name (InfoError collection_name le)
              (InfoError collection_name ve) True (JInt 0)), [])"
proof -
  from assms(3) obtain le where
    le: "get_collection_info w (SOURCE_REST_URL cfg) collection_name None = InfoError collection_name le"
    using info_of_failed_fetch by blast
  from assms(4) obtain ve where
    ve: "get_collection_info w (TARGET_REST_URL cfg) collection_name (Some (TARGET_API_KEY cfg)) =
         InfoError collection_name ve"
    using info_of_failed_fetch by blast
  have "compare_one w cfg collection_name =
      Returns (CompareOne collection_name (InfoError collection_name le) (InfoError collection_name ve) True (JInt 0))"
    by (simp add: compare_one_def le ve py_sub_def py_eq_def out_bind_def)
  with assms(1,2) show ?thesis
    by (simp add: call_tool_def arg_get_def)
qed

theorem compare_one_absent_in_sync_witness:
  "call_tool scenario_world default_config ''qdrant_compare_collections''
       [''collection_name'' \<mapsto> JStr ''Z''] =
     (Returns (CompareOne (JStr ''Z'') (InfoError (JStr ''Z'') ''HTTP 404'')
        (InfoError (JStr ''Z'') ''HTTP 404'') True (JInt 0)), [])"
proof -
  have a: "fetch_fails (get_collection scenario_world (SOURCE_REST_URL default_config) (JStr ''Z'') (headers None))"
    by (simp add: scenario_world_def default_config_def store_stat_def)
  have b: "fetch_fails (get_collection scenario_world (TARGET_REST_URL default_config) (JStr ''Z'')
      (headers (Some (TARGET_API_KEY default_config))))"
    by (simp add: scenario_world_def default_config_def store_stat_def)
  have c: "str_int 404 = ''404''" by code_simp
  have l: "get_collection_info scenario_world (SOURCE_REST_URL default_config) (JStr ''Z'') None =
      InfoError (JStr ''Z'') ''HTTP 404''"
    by (simp add: get_collection_info_def scenario_world_def default_config_def store_stat_def c)
  have v: "get_collection_info scenario_world (TARGET_REST_URL default_config) (JStr ''Z'')
      (Some (TARGET_API_KEY default_config)) = InfoError (JStr ''Z'') ''HTTP 404''"
    by (simp add: get_collection_info_def scenario_world_def default_config_def store_stat_def c)
  from compare_one_absent_in_sync [where args = "[''collection_name'' \<mapsto> JStr ''Z'']"
      and collection_name = "JStr ''Z''" and w = scenario_world and cfg = default_config, OF _ _ a b]
  obtain le ve where "call_tool scenario_world default_config ''qdrant_compare_collections''
       [''collection_name'' \<mapsto> JStr ''Z''] =
     (Returns (CompareOne (JStr ''Z'') (InfoError (JStr ''Z'') le) (InfoError (JStr ''Z'') ve) True (JInt 0)), [])"
    by auto
  moreover have "call_tool scenario_world default_config ''qdrant_compare_collections''
       [''collection_name'' \<mapsto> JStr ''Z''] =
       (compare_one scenario_world default_config (JStr ''Z''), [])"
    by (simp add: call_tool_def arg_get_def)
  ultimately show ?thesis by (simp add: compare_one_def l v Let_def py_sub_def py_eq_def out_bind_def)
qed

section \<open>The comparison returns on well-typed inventories\<close>

lemma map_of_dict_set: "map_of (dict_set k v d) = (map_of d)(k \<mapsto> v)"
  by (induction k v d rule: dict_set.induct) (auto simp: fun_eq_iff)

lemma keys_dict_set: "set (map fst (dict_set k v d)) = insert k (set (map fst d))"
  by (induction k v d rule: dict_set.induct) auto

lemma dict_by_name_fold:
  "map_of (foldl (\<lambda>d c. dict_set (info_name c) c d) d0 cs) k = Some c \<Longrightarrow>
   c \<in> set cs \<or> map_of d0 k = Some c"
proof (induction cs arbitrary: d0)
  case Nil
  then show ?case by simp
next
  case (Cons a cs)
  from Cons.prems have "map_of (foldl (\<lambda>d c. dict_set (info_name c) c d) (dict_set (info_name a) a d0) cs) k = Some c"
    by simp
  then have "c \<in> set cs \<or> map_of (dict_set (info_name a) a d0) k = Some c"
    by (rule Cons.IH)
  then show ?case
    by (auto simp: map_of_dict_set split: if_splits)
qed

lemma dict_by_name_values: "map_of (dict_by_name cs) k = Some c \<Longrightarrow> c \<in> set cs"
  using dict_by_name_fold [of "[]" cs k c] by (simp add: dict_by_name_def)

lemma dict_by_name_keys_fold:
  "set (map fst (foldl (\<lambda>d c. dict_set (info_name c) c d) d0 cs)) =
   set (map fst d0) \<union> info_name ` set cs"
proof (induction cs arbitrary: d0)
  case Nil
  then show ?case by simp
next
  case (Cons a cs)
  have "set (map fst (foldl (\<lambda>d c. dict_set (info_name c) c d) (dict_set (info_name a) a d0) cs)) =
        set (map fst (dict_set (info_name a) a d0)) \<union> info_name ` set cs"
    by (rule Cons.IH)
  then show ?case
    by (simp only: foldl_Cons keys_dict_set) auto
qed

lemma dict_by_name_keys: "set (map fst (dict_by_name cs)) = info_name ` set cs"
  using dict_by_name_keys_fold [of "[]" cs] by (simp add: dict_by_name_def)

lemma dict_get_info_numeric:
  assumes "list_all (\<lambda>c. py_num (info_points_count c) \<noteq> None) cs"
  shows "py_num (info_points_count (dict_get_info (dict_by_name cs) n)) \<noteq> None"
proof (cases "map_of (dict_by_name cs) n")
  case None
  then show ?thesis by (simp add: dict_get_info_def)
next
  case (Some c)
  then have "c \<in> set cs" by (rule dict_by_name_values)
  with assms Some show ?thesis by (simp add: dict_get_info_def list_all_iff)
qed

lemma compare_loop_returns:
  assumes "\<And>n. py_num (info_points_count (dict_get_info ld n)) \<noteq> None"
    and "\<And>n. py_num (info_points_count (dict_get_info vd n)) \<noteq> None"
  shows "\<exists>cmp' a' b' oos'.
           compare_loop ld vd names (cmp, JInt a, JInt b, oos) = Returns (cmp', JInt a', JInt b', oos')"
proof (induction names arbitrary: cmp a b oos)
  case Nil
  then show ?case by simp
next
  case (Cons n names)
  from assms(1) [of n] obtain x where x: "py_num (info_points_count (dict_get_info ld n)) = Some x"
    by auto
  from assms(2) [of n] obtain y where y: "py_num (info_points_count (dict_get_info vd n)) = Some y"
    by auto
  show ?case
    using Cons.IH
    by (simp add: Let_def out_bind_def py_iadd_int [OF x] py_iadd_int [OF y] py_sub_int [OF x y])
qed

lemma compare_report_returns:
  assumes "list_all (\<lambda>c. is_str (info_name c)) lc" and "list_all (\<lambda>c. is_str (info_name c)) vc"
    and "list_all (\<lambda>c. py_num (info_points_count c) \<noteq> None) lc"
    and "list_all (\<lambda>c. py_num (info_points_count c) \<noteq> None) vc"
  shows "\<exists>s es. compare_report t lc vc = Returns (CompareAll t s es)"
proof -
  let ?all = "remdups (map fst (dict_by_name lc) @ map fst (dict_by_name vc))"
  have "set ?all = info_name ` set lc \<union> info_name ` set vc"
    by (simp add: dict_by_name_keys del: set_map)
  with assms(1,2) have "list_all (\<lambda>x. is_str (id x)) ?all"
    by (auto simp: list_all_iff)
  then have sorted_names: "py_sorted_key id ?all = Some (sort_key (\<lambda>x. str_of (id x)) ?all)"
    by (simp only: py_sorted_key_def if_True)
  obtain cmp a b oos where loop:
    "compare_loop (dict_by_name lc) (dict_by_name vc) (sort_key (\<lambda>x. str_of (id x)) ?all)
       ([], JInt 0, JInt 0, 0) = Returns (cmp, JInt a, JInt b, oos)"
    using compare_loop_returns [of "dict_by_name lc" "dict_by_name vc"]
      dict_get_info_numeric [OF assms(3)] dict_get_info_numeric [OF assms(4)]
    by blast
  from loop sorted_names show ?thesis
    by (simp add: compare_report_def Let_def out_bind_def py_sub_def)
qed

end
